theory Spec2Isabelle
  imports Main "HOL-Library.Sublist" "HOL-Library.Multiset"
begin

section \<open>Strings and arrays of the JavaScript runtime\<close>

text \<open>
  A JavaScript string is modelled as a \<^typ>\<open>string\<close>, a list of characters, and an array
  as a list. The built-ins the handler calls are written out as list functions.
  A character is one of the code units 0 to 255. On these, \<open>toLowerCase\<close> adds 32 to the
  capitals, which are the code units 65 to 90 (A to Z), 192 to 214 and 216 to 222 (the
  accented capitals of Latin-1, without the multiplication sign 215), and leaves every
  other code unit as it is.
\<close>

definition lower_char :: "char \<Rightarrow> char" where
  "lower_char c =
     (let n = (of_char c :: nat) in
      if (65 \<le> n \<and> n \<le> 90) \<or> (192 \<le> n \<and> n \<le> 214) \<or> (216 \<le> n \<and> n \<le> 222)
      then char_of (n + 32) else c)"

definition toLowerCase :: "string \<Rightarrow> string" where
  "toLowerCase s = map lower_char s"

text \<open>\<open>s.includes(q)\<close>: does \<open>q\<close> occur in \<open>s\<close> as a contiguous run, at any position.\<close>

fun str_includes :: "'a list \<Rightarrow> 'a list \<Rightarrow> bool" where
  "str_includes [] searchString = (searchString = [])"
| "str_includes (c # s) searchString = (prefix searchString (c # s) \<or> str_includes s searchString)"

text \<open>\<open>xs.slice(start, end)\<close> and \<open>s.substring(start, end)\<close> for indices that are not negative.\<close>

definition slice :: "nat \<Rightarrow> nat \<Rightarrow> 'a list \<Rightarrow> 'a list" where
  "slice start stop xs = take (stop - start) (drop start xs)"

definition substring :: "nat \<Rightarrow> nat \<Rightarrow> string \<Rightarrow> string" where
  "substring start stop s = take (stop - start) (drop start s)"

text \<open>
  \<open>xs.sort(compareFn)\<close>: the sort of the runtime is stable, and is modelled by a stable
  insertion sort. An element goes before the first element it does not compare greater
  than, so elements that compare equal keep their order.
\<close>

fun insert_by :: "('a \<Rightarrow> 'a \<Rightarrow> int) \<Rightarrow> 'a \<Rightarrow> 'a list \<Rightarrow> 'a list" where
  "insert_by compareFn x [] = [x]"
| "insert_by compareFn x (y # ys) =
     (if compareFn x y \<le> 0 then x # y # ys else y # insert_by compareFn x ys)"

definition sort_by :: "('a \<Rightarrow> 'a \<Rightarrow> int) \<Rightarrow> 'a list \<Rightarrow> 'a list" where
  "sort_by compareFn xs = foldr (insert_by compareFn) xs []"

text \<open>
  \<open>xs.join(separator)\<close> as the runtime computes it: the result starts empty, and every
  element but the first is preceded by the separator.
\<close>

fun join_from :: "string \<Rightarrow> string \<Rightarrow> nat \<Rightarrow> string list \<Rightarrow> string" where
  "join_from separator R k [] = R"
| "join_from separator R k (element # rest) =
     join_from separator ((if 0 < k then R @ separator else R) @ element) (Suc k) rest"

definition join :: "string \<Rightarrow> string list \<Rightarrow> string" where
  "join separator xs = join_from separator [] 0 xs"

section \<open>Relevance ranking (analyze-document, lines 46 to 59)\<close>

record chunk =
  chunk_text :: string
  chunk_index :: int

record scored_chunk = chunk +
  score :: int

text \<open>The callback of \<open>map\<close>: the chunk with its score, 1 when the lowercased text includes
  the lowercased question and 0 otherwise.\<close>

definition score_chunk :: "string \<Rightarrow> chunk \<Rightarrow> scored_chunk" where
  "score_chunk questionLower c =
     \<lparr>chunk_text = chunk_text c, chunk_index = chunk_index c,
      score = (if str_includes (toLowerCase (chunk_text c)) questionLower then 1 else 0)\<rparr>"

text \<open>The callback of \<open>sort\<close>: \<open>(a, b) => b.score - a.score\<close>.\<close>

definition compare_score :: "scored_chunk \<Rightarrow> scored_chunk \<Rightarrow> int" where
  "compare_score a b = score b - score a"

text \<open>The chunks that survive \<open>.map(...).filter((chunk) => chunk.score > 0)\<close>.\<close>

definition matching_chunks :: "chunk list \<Rightarrow> string \<Rightarrow> scored_chunk list" where
  "matching_chunks chunks question =
     (let questionLower = toLowerCase question in
      filter (\<lambda>c. 0 < score c) (map (score_chunk questionLower) chunks))"

definition relevantChunks :: "chunk list \<Rightarrow> string \<Rightarrow> scored_chunk list" where
  "relevantChunks chunks question =
     slice 0 3 (sort_by compare_score (matching_chunks chunks question))"

text \<open>\<open>relevantChunks.map((c) => c.text).join("\n\n")\<close>.\<close>

definition paragraph_break :: string where
  "paragraph_break = [CHR 0x0A, CHR 0x0A]"

definition context_of :: "scored_chunk list \<Rightarrow> string" where
  "context_of rs = join paragraph_break (map chunk_text rs)"

section \<open>Values exchanged with the collaborators\<close>

text \<open>
  A JSON value, as \<open>JSON.parse\<close> returns it. Numbers are integers here: the only number
  the handler itself writes is the confidence score 75.
\<close>

datatype json =
    JNull
  | JBool bool
  | JNumber int
  | JString string
  | JArray "json list"
  | JObject "(string \<times> json) list"

text \<open>
  What the \<open>try\<close> block can throw: \<open>new Error(message)\<close> raised by the handler itself, the
  runtime's \<open>TypeError\<close> and \<open>SyntaxError\<close>, and the rejection of \<open>fetch\<close> with its message.
\<close>

datatype failure = Error string | TypeError | SyntaxError | FetchError string

text \<open>
  Reading \<open>value.key\<close> for one of the keys the handler reads (\<open>answer\<close>, \<open>evidence\<close>,
  \<open>confidence_score\<close>, \<open>reasoning\<close>), which no built-in prototype defines: \<open>null\<close> raises a
  \<open>TypeError\<close>, an object gives its field or \<open>undefined\<close> (\<open>None\<close>), any other value gives
  \<open>undefined\<close>.
\<close>

fun get_property :: "json \<Rightarrow> string \<Rightarrow> failure + json option" where
  "get_property JNull key = Inl TypeError"
| "get_property (JObject members) key = Inr (map_of members key)"
| "get_property v key = Inr None"

record user =
  user_id :: string

record document =
  doc_id :: string
  doc_chunks :: "chunk list"

text \<open>The body \<open>{ documentId, question }\<close> that the query interface sends and the handler reads.\<close>

record analyze_body =
  documentId :: string
  question :: string

text \<open>
  The request as the handler observes it: its method, its \<open>Authorization\<close> header
  (\<open>None\<close> when absent) and the outcome of \<open>req.json()\<close> (\<open>None\<close> when it rejects).
\<close>

record request =
  req_method :: string
  req_authorization :: "string option"
  req_json :: "analyze_body option"

record gateway_request =
  model :: string
  messages :: "(string \<times> string) list"

text \<open>
  The gateway's response as the handler observes it: \<open>response.ok\<close>, \<open>response.status\<close>,
  \<open>response.text()\<close>, and what reading \<open>(await response.json()).choices[0].message.content\<close>
  gives: the content string, or the error that the read raises.
\<close>

record gateway_response =
  resp_ok :: bool
  resp_status :: nat
  resp_text :: string
  resp_content :: "failure + string"

text \<open>
  What \<open>await fetch(...)\<close> does: the promise rejects with a message, it resolves to a
  response, or it never settles, the gateway giving no answer; the handler passes no
  signal to \<open>fetch\<close> and sets no timer, so nothing ends the wait.
\<close>

datatype fetch_outcome = Rejected string | Responded gateway_response | NeverSettles

text \<open>A row of the table \<open>queries\<close>, as passed to \<open>insert\<close>; \<open>None\<close> is \<open>undefined\<close>.\<close>

record query_row =
  row_document_id :: string
  row_user_id :: string
  row_question :: string
  row_answer :: "json option"
  row_evidence :: "json option"
  row_confidence_score :: "json option"
  row_reasoning :: "json option"

datatype log_line =
    LogAnalyzing string string
  | LogGatewayError nat string
  | LogAnalysisComplete
  | LogError failure

text \<open>
  The collaborators, which are not part of the repository, are parameters of the handler:
  the authentication service, the table \<open>documents\<close>, the AI gateway, \<open>JSON.parse\<close> and the
  insertion into \<open>queries\<close>. \<open>auth_getUser\<close> gives \<open>None\<close> when the service reports an error or
  no user, \<open>select_document\<close> when the selection reports an error or no row. The insertion
  returns its error, if any, to the handler as a value (\<open>None\<close> when the row is stored); it
  does not throw. The environment variables that the handler reads are taken to be set.
\<close>

record env =
  auth_getUser :: "string \<Rightarrow> user option"
  select_document :: "string \<Rightarrow> document option"
  gateway_fetch :: "gateway_request \<Rightarrow> fetch_outcome"
  JSON_parse :: "string \<Rightarrow> json option"
  insert_query :: "query_row \<Rightarrow> string option"

text \<open>What the handler changes: the stored rows, the requests sent to the gateway, the console.\<close>

record world =
  queries :: "query_row list"
  gateway_calls :: "gateway_request list"
  console :: "log_line list"

datatype response_body = NoBody | JsonBody json | ErrorBody failure

record response =
  status :: nat
  body :: response_body

section \<open>The handler of analyze-document\<close>

text \<open>\<open>s.replace(pattern, replacement)\<close> with a string pattern: the first occurrence only.\<close>

fun replace_first :: "string \<Rightarrow> string \<Rightarrow> string \<Rightarrow> string" where
  "replace_first pattern replacement [] = (if pattern = [] then replacement else [])"
| "replace_first pattern replacement (c # s) =
     (if prefix pattern (c # s) then replacement @ drop (length pattern) (c # s)
      else c # replace_first pattern replacement s)"

definition newline :: string where
  "newline = [CHR 0x0A]"

definition quote :: string where
  "quote = [CHR 0x22]"

definition systemPrompt :: string where
  "systemPrompt =
     ''You are a policy analysis assistant. Based on the context provided, answer the user'' @ [CHR 0x27] @ ''s question.'' @ newline @
     ''Provide:'' @ newline @
     ''1. A clear and concise answer'' @ newline @
     ''2. Supporting evidence (quote relevant document lines)'' @ newline @
     ''3. Confidence score (0-100%)'' @ newline @
     ''4. Explanation of reasoning'' @ newline @
     newline @
     ''Format your response as JSON with these fields:'' @ newline @
     ''{'' @ newline @
     ''  '' @ quote @ ''answer'' @ quote @ '': '' @ quote @ ''your answer here'' @ quote @ '','' @ newline @
     ''  '' @ quote @ ''evidence'' @ quote @ '': ['' @ quote @ ''quote 1'' @ quote @ '', '' @ quote @ ''quote 2'' @ quote @ ''],'' @ newline @
     ''  '' @ quote @ ''confidence_score'' @ quote @ '': 85,'' @ newline @
     ''  '' @ quote @ ''reasoning'' @ quote @ '': '' @ quote @ ''explanation here'' @ quote @ newline @
     ''}''"

text \<open>The body of the request to the gateway (lines 83 to 92).\<close>

definition gateway_request_of :: "string \<Rightarrow> string \<Rightarrow> gateway_request" where
  "gateway_request_of ctx q =
     \<lparr>model = ''google/gemini-2.5-flash'',
      messages =
        [(''system'', systemPrompt),
         (''user'', ''Context from document:'' @ newline @ ctx @ newline @ newline @
                    ''Question: '' @ q)]\<rparr>"

text \<open>The record built in the \<open>catch\<close> of \<open>JSON.parse\<close> (lines 109 to 114).\<close>

definition fallback_result :: "string \<Rightarrow> scored_chunk list \<Rightarrow> json" where
  "fallback_result aiResponse relevant =
     JObject
       [(''answer'', JString aiResponse),
        (''evidence'',
           JArray (map (\<lambda>c. JString (substring 0 200 (chunk_text c) @ ''...'')) relevant)),
        (''confidence_score'', JNumber 75),
        (''reasoning'', JString ''Analysis based on document context'')]"

text \<open>Lines 104 to 115: the parsed value when \<open>JSON.parse\<close> returns, the fallback record
  when it throws.\<close>

definition parse_result :: "env \<Rightarrow> string \<Rightarrow> scored_chunk list \<Rightarrow> json" where
  "parse_result e aiResponse relevant =
     (case JSON_parse e aiResponse of
        Some parsed \<Rightarrow> parsed
      | None \<Rightarrow> fallback_result aiResponse relevant)"

text \<open>
  Lines 118 to 126, the argument of \<open>insert\<close>: the four fields of the result are read, which
  raises when the result is \<open>null\<close>.
\<close>

definition query_row_of :: "string \<Rightarrow> user \<Rightarrow> string \<Rightarrow> json \<Rightarrow> failure + query_row" where
  "query_row_of docId usr q result =
     (case (get_property result ''answer'', get_property result ''evidence'',
            get_property result ''confidence_score'', get_property result ''reasoning'') of
        (Inr answer, Inr evidence, Inr confidence_score, Inr reasoning) \<Rightarrow>
          Inr \<lparr>row_document_id = docId, row_user_id = user_id usr, row_question = q,
               row_answer = answer, row_evidence = evidence,
               row_confidence_score = confidence_score, row_reasoning = reasoning\<rparr>
      | _ \<Rightarrow> Inl TypeError)"

text \<open>
  \<open>await supabase.from("queries").insert(row)\<close>: the value of the expression is the error
  that the insertion reports, if any, and the row is in the table when there is none.
\<close>

definition store_query ::
  "env \<Rightarrow> world \<Rightarrow> string \<Rightarrow> user \<Rightarrow> string \<Rightarrow> json \<Rightarrow> failure + (string option \<times> world)" where
  "store_query e w docId usr q result =
     (case query_row_of docId usr q result of
        Inl raised \<Rightarrow> Inl raised
      | Inr row \<Rightarrow>
          (case insert_query e row of
             None \<Rightarrow> Inr (None, w\<lparr>queries := queries w @ [row]\<rparr>)
           | Some insert_error \<Rightarrow> Inr (Some insert_error, w)))"

text \<open>The \<open>try\<close> block (lines 16 to 132): the value to return or the error thrown, and the
  world as the block leaves it; \<open>None\<close> when the block never completes, which is the case
  when \<open>fetch\<close> never settles. The handler does not read what the insertion reports.\<close>

definition try_block :: "env \<Rightarrow> world \<Rightarrow> request \<Rightarrow> (failure + json) option \<times> world" where
  "try_block e w req =
     (case req_authorization req of
        None \<Rightarrow> (Some (Inl TypeError), w)
      | Some authHeader \<Rightarrow>
     (case auth_getUser e (replace_first ''Bearer '' [] authHeader) of
        None \<Rightarrow> (Some (Inl (Error ''Unauthorized'')), w)
      | Some usr \<Rightarrow>
     (case req_json req of
        None \<Rightarrow> (Some (Inl SyntaxError), w)
      | Some b \<Rightarrow>
     (let w1 = w\<lparr>console := console w @ [LogAnalyzing (documentId b) (question b)]\<rparr> in
      case select_document e (documentId b) of
        None \<Rightarrow> (Some (Inl (Error ''Document not found'')), w1)
      | Some doc \<Rightarrow>
     (let chunks = doc_chunks doc;
          relevant = relevantChunks chunks (question b);
          ctx = context_of relevant;
          sent = gateway_request_of ctx (question b);
          w2 = w1\<lparr>gateway_calls := gateway_calls w1 @ [sent]\<rparr> in
      case gateway_fetch e sent of
        NeverSettles \<Rightarrow> (None, w2)
      | Rejected message \<Rightarrow> (Some (Inl (FetchError message)), w2)
      | Responded r \<Rightarrow>
     (if \<not> resp_ok r
      then (Some (Inl (Error ''AI analysis failed'')),
            w2\<lparr>console := console w2 @ [LogGatewayError (resp_status r) (resp_text r)]\<rparr>)
      else
     (case resp_content r of
        Inl raised \<Rightarrow> (Some (Inl raised), w2)
      | Inr aiResponse \<Rightarrow>
     (let result = parse_result e aiResponse relevant in
      case store_query e w2 (documentId b) usr (question b) result of
        Inl raised \<Rightarrow> (Some (Inl raised), w2)
      | Inr (insert_error, w3) \<Rightarrow>
          (Some (Inr result), w3\<lparr>console := console w3 @ [LogAnalysisComplete]\<rparr>)))))))))"

text \<open>The handler: the preflight answer, the \<open>try\<close> block, and the \<open>catch\<close> that logs the
  error and answers 500 with it (lines 10 to 145). The body of a response is the value
  that the handler serializes: nothing, the result, or the error whose message it sends.
  The handler gives no response (\<open>None\<close>) when the \<open>try\<close> block never completes.\<close>

definition analyze :: "env \<Rightarrow> world \<Rightarrow> request \<Rightarrow> response option \<times> world" where
  "analyze e w req =
     (if req_method req = ''OPTIONS'' then (Some \<lparr>status = 200, body = NoBody\<rparr>, w)
      else
        (case try_block e w req of
           (Some (Inr result), w') \<Rightarrow> (Some \<lparr>status = 200, body = JsonBody result\<rparr>, w')
         | (Some (Inl raised), w') \<Rightarrow>
             (Some \<lparr>status = 500, body = ErrorBody raised\<rparr>,
              w'\<lparr>console := console w' @ [LogError raised]\<rparr>)
         | (None, w') \<Rightarrow> (None, w')))"

section \<open>The query interface (QueryInterface.tsx)\<close>

text \<open>
  \<open>s.trim()\<close> removes white space and line terminators from both ends. The characters
  are the ones of the first 256 code points: tab, line feed, vertical tab, form feed,
  carriage return, space and no-break space.
\<close>

definition is_white_space :: "char \<Rightarrow> bool" where
  "is_white_space c = ((of_char c :: nat) \<in> set [9, 10, 11, 12, 13, 32, 160])"

definition trim :: "string \<Rightarrow> string" where
  "trim s = rev (dropWhile is_white_space (rev (dropWhile is_white_space s)))"

text \<open>What \<open>supabase.functions.invoke\<close> resolves to, or what it throws.\<close>

datatype thrown = ErrorObject string | OtherValue

datatype invoke_reply = InvokeData json | InvokeError thrown

record invocation =
  function_name :: string
  invocation_body :: analyze_body

record toast =
  title :: string
  description :: string
  variant :: string

text \<open>
  The state variables of the component (\<open>question\<close>, \<open>isLoading\<close>, \<open>result\<close>), with the calls
  to \<open>invoke\<close> and the toasts it has issued. \<open>handleSubmit\<close> takes the reply of \<open>invoke\<close> as
  a function of the call and the \<open>documentId\<close> property of the component.
\<close>

record query_interface =
  st_question :: string
  st_isLoading :: bool
  st_result :: "json option"
  st_invocations :: "invocation list"
  st_toasts :: "toast list"

definition handleSubmit ::
  "(invocation \<Rightarrow> invoke_reply) \<Rightarrow> string \<Rightarrow> query_interface \<Rightarrow> query_interface" where
  "handleSubmit invoke docId st =
     (if trim (st_question st) = [] then st
      else
        (let st1 = st\<lparr>st_isLoading := True, st_result := None\<rparr>;
             call = \<lparr>function_name = ''analyze-document'',
                     invocation_body = \<lparr>documentId = docId, question = st_question st\<rparr>\<rparr>;
             st2 = st1\<lparr>st_invocations := st_invocations st1 @ [call]\<rparr>
         in case invoke call of
              InvokeData data \<Rightarrow>
                st2\<lparr>st_result := Some data, st_question := [], st_isLoading := False\<rparr>
            | InvokeError err \<Rightarrow>
                st2\<lparr>st_toasts := st_toasts st2 @
                      [\<lparr>title = ''Error'',
                        description =
                          (case err of ErrorObject message \<Rightarrow> message
                           | OtherValue \<Rightarrow> ''Failed to analyze document''),
                        variant = ''destructive''\<rparr>],
                    st_isLoading := False\<rparr>))"

text \<open>The \<open>disabled\<close> attribute of the submit button: \<open>isLoading || !question.trim()\<close>.\<close>

definition submit_disabled :: "query_interface \<Rightarrow> bool" where
  "submit_disabled st = (st_isLoading st \<or> trim (st_question st) = [])"

section \<open>The chunking of process-document\<close>








section \<open>Reference notions that the properties are stated against\<close>

text \<open>
  What the language standard asks of \<open>sort\<close>, whatever algorithm the runtime uses: the
  result is a rearrangement of the array, no element stands before one it compares
  greater than, and the elements that compare equal to a given one keep their order.
\<close>

definition array_sort_contract :: "('a \<Rightarrow> 'a \<Rightarrow> int) \<Rightarrow> 'a list \<Rightarrow> 'a list \<Rightarrow> bool" where
  "array_sort_contract compareFn xs ys =
     (mset ys = mset xs
      \<and> sorted_wrt (\<lambda>a b. compareFn a b \<le> 0) ys
      \<and> list_all
          (\<lambda>x. filter (\<lambda>y. compareFn x y = 0) ys = filter (\<lambda>y. compareFn x y = 0) xs) xs)"

text \<open>
  The request passes the steps before the ranking: the token is that of user \<open>usr\<close>, the
  body is \<open>b\<close> and the document it names is \<open>doc\<close>.
\<close>

definition request_accepted :: "env \<Rightarrow> request \<Rightarrow> user \<Rightarrow> analyze_body \<Rightarrow> document \<Rightarrow> bool" where
  "request_accepted e req usr b doc =
     ((case req_authorization req of
         None \<Rightarrow> False
       | Some authHeader \<Rightarrow> auth_getUser e (replace_first ''Bearer '' [] authHeader) = Some usr)
      \<and> req_json req = Some b
      \<and> select_document e (documentId b) = Some doc)"

text \<open>The request that the handler sends to the gateway for a document and a body.\<close>

definition sent_request :: "document \<Rightarrow> analyze_body \<Rightarrow> gateway_request" where
  "sent_request doc b =
     gateway_request_of (context_of (relevantChunks (doc_chunks doc) (question b))) (question b)"

text \<open>The reasoning capability fails: \<open>fetch\<close> rejects (the gateway is unreachable), or the
  response has a non-success status. A gateway that gives no answer is not a failure
  that the handler ever sees.\<close>

fun gateway_failed :: "fetch_outcome \<Rightarrow> bool" where
  "gateway_failed (Rejected message) = True"
| "gateway_failed (Responded r) = (\<not> resp_ok r)"
| "gateway_failed NeverSettles = False"

text \<open>
  The Context Assembler in the words of the specification: the texts in rank order, a
  delimiter between each two neighbours, the empty string for the empty sequence.
\<close>

fun texts_with_delimiter :: "string \<Rightarrow> string list \<Rightarrow> string" where
  "texts_with_delimiter d [] = []"
| "texts_with_delimiter d [t] = t"
| "texts_with_delimiter d (t # u # ts) = t @ d @ texts_with_delimiter d (u # ts)"

text \<open>
  The Structured shape in the words of the specification: an object with a string
  \<open>answer\<close>, a sequence of strings \<open>evidence\<close>, an integer \<open>confidence_score\<close> from 0 to 100
  and a string \<open>reasoning\<close>.
\<close>

fun is_json_string :: "json \<Rightarrow> bool" where
  "is_json_string (JString s) = True"
| "is_json_string v = False"

fun structured_shape :: "json \<Rightarrow> bool" where
  "structured_shape (JObject members) =
     (case (map_of members ''answer'', map_of members ''evidence'',
            map_of members ''confidence_score'', map_of members ''reasoning'') of
        (Some (JString a), Some (JArray es), Some (JNumber n), Some (JString r)) \<Rightarrow>
          list_all is_json_string es \<and> 0 \<le> n \<and> n \<le> 100
      | _ \<Rightarrow> False)"
| "structured_shape v = False"


section \<open>Sample inputs\<close>


definition policy_chunks :: "chunk list" where
  "policy_chunks =
     [\<lparr>chunk_text = ''Knee surgery is covered under plan B.'', chunk_index = 0\<rparr>,
      \<lparr>chunk_text = ''Dental work is excluded.'', chunk_index = 1\<rparr>,
      \<lparr>chunk_text = ''A KNEE SURGERY needs prior approval.'', chunk_index = 2\<rparr>,
      \<lparr>chunk_text = ''Physiotherapy after knee surgery: ten sessions.'', chunk_index = 3\<rparr>,
      \<lparr>chunk_text = ''Second knee surgery within a year is excluded.'', chunk_index = 4\<rparr>]"

text \<open>
  \<open>JSON.parse\<close> on the texts of the examples: the empty object, \<open>null\<close>, a number, and
  prose, which is not JSON.
\<close>

definition sample_parse :: "string \<Rightarrow> json option" where
  "sample_parse s =
     (if s = ''{}'' then Some (JObject [])
      else if s = ''null'' then Some JNull
      else if s = ''42'' then Some (JNumber 42)
      else None)"

definition reply_with :: "string \<Rightarrow> fetch_outcome" where
  "reply_with content =
     Responded \<lparr>resp_ok = True, resp_status = 200, resp_text = [], resp_content = Inr content\<rparr>"

definition sample_env :: env where
  "sample_env =
     \<lparr>auth_getUser = (\<lambda>token. if token = ''token-1'' then Some \<lparr>user_id = ''user-1''\<rparr> else None),
      select_document =
        (\<lambda>docId. if docId = ''doc-1''
                  then Some \<lparr>doc_id = ''doc-1'', doc_chunks = policy_chunks\<rparr> else None),
      gateway_fetch = (\<lambda>sent. reply_with ''Yes, under plan B.''),
      JSON_parse = sample_parse,
      insert_query = (\<lambda>row. None)\<rparr>"

definition sample_request :: "string \<Rightarrow> request" where
  "sample_request q =
     \<lparr>req_method = ''POST'', req_authorization = Some ''Bearer token-1'',
      req_json = Some \<lparr>documentId = ''doc-1'', question = q\<rparr>\<rparr>"

definition empty_world :: world where
  "empty_world = \<lparr>queries = [], gateway_calls = [], console = []\<rparr>"

definition blank_form :: query_interface where
  "blank_form =
     \<lparr>st_question = [CHR '' '', CHR 0x09, CHR '' ''], st_isLoading = False, st_result = None,
      st_invocations = [], st_toasts = []\<rparr>"

text \<open>The sample collaborators with a gateway that answers 503.\<close>

definition gateway_down :: env where
  "gateway_down = sample_env\<lparr>gateway_fetch := (\<lambda>sent.
      Responded \<lparr>resp_ok = False, resp_status = 503, resp_text = ''Service Unavailable'',
                 resp_content = Inl SyntaxError\<rparr>)\<rparr>"

text \<open>The sample collaborators with a gateway that never answers, and with one whose
  content is the number 42.\<close>

definition gateway_silent :: env where
  "gateway_silent = sample_env\<lparr>gateway_fetch := (\<lambda>sent. NeverSettles)\<rparr>"

definition gateway_number :: env where
  "gateway_number = sample_env\<lparr>gateway_fetch := (\<lambda>sent. reply_with ''42'')\<rparr>"

text \<open>The sample collaborators with a gateway whose content is the empty object, and with
  a storage that is unavailable.\<close>

definition gateway_empty_object :: env where
  "gateway_empty_object = sample_env\<lparr>gateway_fetch := (\<lambda>sent. reply_with ''{}'')\<rparr>"

definition storage_down :: env where
  "storage_down = sample_env\<lparr>insert_query := (\<lambda>row. Some ''storage unavailable'')\<rparr>"

section \<open>Properties of the relevance ranking\<close>

lemma str_includes_sublist: "str_includes s q \<longleftrightarrow> sublist q s"
  by (induction s) (auto simp: sublist_Cons_right)

lemma insert_by_same:
  "list_all (\<lambda>c. score c = score a) xs \<Longrightarrow> insert_by compare_score a xs = a # xs"
  by (cases xs) (simp_all add: compare_score_def)

lemma sort_by_same: "list_all (\<lambda>c. score c = k) xs \<Longrightarrow> sort_by compare_score xs = xs"
  unfolding sort_by_def
  by (induction xs) (simp_all add: insert_by_same)

lemma score_score_chunk:
  "score (score_chunk q c) = (if sublist q (toLowerCase (chunk_text c)) then 1 else 0)"
  by (simp add: score_chunk_def str_includes_sublist)

lemma truncate_score_chunk: "chunk.truncate (score_chunk q c) = c"
  by (simp add: score_chunk_def chunk.truncate_def)

lemma index_score_chunk: "chunk_index (score_chunk q c) = chunk_index c"
  by (simp add: score_chunk_def)

lemma matching_chunks_eq:
  "matching_chunks chunks q =
     map (score_chunk (toLowerCase q))
       (filter (\<lambda>c. sublist (toLowerCase q) (toLowerCase (chunk_text c))) chunks)"
  by (induction chunks) (simp_all add: matching_chunks_def Let_def score_score_chunk)

lemma score_matching: "list_all (\<lambda>c. score c = 1) (matching_chunks chunks q)"
  by (simp add: matching_chunks_eq list_all_iff score_score_chunk)

lemma relevantChunks_eq: "relevantChunks chunks q = take 3 (matching_chunks chunks q)"
  by (simp add: relevantChunks_def slice_def sort_by_same [OF score_matching])

lemma length_relevantChunks: "length (relevantChunks chunks q) \<le> 3"
  by (simp add: relevantChunks_eq)

lemma sorted_wrt_filter_map:
  "sorted_wrt (<) (map f xs) \<Longrightarrow> sorted_wrt (<) (map f (filter P xs))"
  by (induction xs) auto

lemma sorted_wrt_take: "sorted_wrt R xs \<Longrightarrow> sorted_wrt R (take n xs)"
  by (metis append_take_drop_id sorted_wrt_append)

text \<open>
  C1. For every chunk sequence and question, the ranking returns the chunks whose
  lowercased text contains the lowercased question as a contiguous substring, and no
  other chunk; it keeps the first three of them at most; every one has score 1, so the
  result is in descending order of score; and equal scores leave the chunks in the order
  of the document: the result is the start of the matching chunks in their original
  order, and where the \<open>index\<close> fields ascend along the document they ascend along the
  result.
\<close>

theorem relevantChunks_ranking:
  "map chunk.truncate (relevantChunks chunks q) =
     take 3 (filter (\<lambda>c. sublist (toLowerCase q) (toLowerCase (chunk_text c))) chunks)
   \<and> length (relevantChunks chunks q) \<le> 3
   \<and> map score (relevantChunks chunks q) = replicate (length (relevantChunks chunks q)) 1
   \<and> sorted_wrt (\<lambda>a b. score b \<le> score a) (relevantChunks chunks q)
   \<and> (sorted_wrt (<) (map chunk_index chunks) \<longrightarrow>
       sorted_wrt (<) (map chunk_index (relevantChunks chunks q)))"
proof -
  let ?m = "\<lambda>c. sublist (toLowerCase q) (toLowerCase (chunk_text c))"
  let ?r = "relevantChunks chunks q"
  have r: "?r = map (score_chunk (toLowerCase q)) (take 3 (filter ?m chunks))"
    by (simp add: relevantChunks_eq matching_chunks_eq take_map)
  have a: "map chunk.truncate ?r = take 3 (filter ?m chunks)"
    by (simp add: r truncate_score_chunk comp_def)
  have b: "length ?r \<le> 3"
    by (simp add: r)
  have one: "\<And>c. c \<in> set ?r \<Longrightarrow> score c = 1"
    unfolding r by (auto simp: score_score_chunk dest: in_set_takeD)
  have c: "map score ?r = replicate (length ?r) 1"
  proof -
    have "map score ?r = map (\<lambda>_. 1) ?r"
      by (rule map_cong) (simp_all add: one)
    then show ?thesis by (simp add: map_replicate_const)
  qed
  have d: "sorted_wrt (\<lambda>a b. score b \<le> score a) ?r"
    by (simp add: sorted_wrt_iff_nth_less one)
  have e: "sorted_wrt (<) (map chunk_index ?r)" if "sorted_wrt (<) (map chunk_index chunks)"
  proof -
    have "sorted_wrt (<) (map chunk_index (take 3 (filter ?m chunks)))"
      using that by (simp add: sorted_wrt_filter_map sorted_wrt_take flip: take_map)
    then show ?thesis by (simp add: r comp_def index_score_chunk)
  qed
  from a b c d e show ?thesis by blast
qed

theorem relevantChunks_ranking_witness:
  "sorted_wrt (<) (map chunk_index policy_chunks)
   \<and> map chunk_index (relevantChunks policy_chunks ''Knee Surgery'') = [0, 2, 3]
   \<and> sorted_wrt (<) (map chunk_index (relevantChunks policy_chunks ''Knee Surgery''))"
proof -
  have h: "sorted_wrt (<) (map chunk_index policy_chunks)"
    by (simp add: policy_chunks_def)
  have v: "map chunk_index (relevantChunks policy_chunks ''Knee Surgery'') = [0, 2, 3]"
    by code_simp
  from relevantChunks_ranking [of policy_chunks "''Knee Surgery''"] h
  have "sorted_wrt (<) (map chunk_index (relevantChunks policy_chunks ''Knee Surgery''))"
    by blast
  with h v show ?thesis by simp
qed

text \<open>
  The lowercasing reaches the accented capitals: the chunk "CAFE visits are covered.",
  its E with an acute accent being the code unit 201, is ranked for the question "cafe",
  whose last character is the code unit 233.
\<close>

lemma relevantChunks_accented_capital:
  "toLowerCase [CHR ''C'', CHR ''A'', CHR ''F'', CHR 0xC9] = [CHR ''c'', CHR ''a'', CHR ''f'', CHR 0xE9]
   \<and> map chunk_index
        (relevantChunks
           [\<lparr>chunk_text = [CHR ''C'', CHR ''A'', CHR ''F'', CHR 0xC9] @ '' visits are covered.'',
             chunk_index = 0\<rparr>]
           [CHR ''c'', CHR ''a'', CHR ''f'', CHR 0xE9]) = [0]"
  by code_simp

section \<open>Properties of the context assembly\<close>

lemma join_from_pos:
  "0 < k \<Longrightarrow> join_from d R k xs = R @ concat (map (\<lambda>x. d @ x) xs)"
  by (induction xs arbitrary: R k) simp_all

lemma join_Cons: "join d (x # xs) = x @ concat (map (\<lambda>y. d @ y) xs)"
  by (simp add: join_def join_from_pos)

lemma join_Nil: "join d [] = []"
  by (simp add: join_def)

lemma texts_with_delimiter_Cons:
  "texts_with_delimiter d (x # xs) = x @ concat (map (\<lambda>y. d @ y) xs)"
  by (induction xs arbitrary: x) simp_all

lemma join_texts_with_delimiter: "join d xs = texts_with_delimiter d xs"
  by (cases xs) (simp_all add: join_Nil join_Cons texts_with_delimiter_Cons)

lemma context_of_Nil: "context_of [] = []"
  by (simp add: context_of_def join_Nil)

text \<open>
  C5. For every ranked chunk sequence, the context is the texts of the chunks in rank
  order with the paragraph delimiter (two line feeds) between neighbours: a single chunk
  gives its text, a longer sequence the first text, the delimiter and the context of the
  rest. The empty sequence gives the empty string; the function is total, so nothing is
  raised.
\<close>

theorem context_of_joins_texts:
  "context_of rs = texts_with_delimiter [CHR 0x0A, CHR 0x0A] (map chunk_text rs)
   \<and> context_of [] = []
   \<and> context_of [c] = chunk_text c
   \<and> context_of (c # c' # rs) = chunk_text c @ [CHR 0x0A, CHR 0x0A] @ context_of (c' # rs)"
  by (simp add: context_of_def paragraph_break_def join_texts_with_delimiter)

section \<open>Properties of the chunking\<close>














section \<open>Determinism of the ranking\<close>

text \<open>The insertion sort of the model is one of the sorts that the contract admits.\<close>

lemma mset_insert_by: "mset (insert_by f a ys) = add_mset a (mset ys)"
  by (induction ys) simp_all

lemma mset_sort_by: "mset (sort_by f xs) = mset xs"
  unfolding sort_by_def by (induction xs) (simp_all add: mset_insert_by)

lemma set_insert_by: "set (insert_by f a ys) = insert a (set ys)"
  by (induction ys) auto

lemma descending_insert_by:
  "sorted_wrt (\<lambda>a b. compare_score a b \<le> 0) ys \<Longrightarrow>
   sorted_wrt (\<lambda>a b. compare_score a b \<le> 0) (insert_by compare_score a ys)"
  by (induction ys) (auto simp: compare_score_def set_insert_by)

lemma descending_sort_by: "sorted_wrt (\<lambda>a b. compare_score a b \<le> 0) (sort_by compare_score xs)"
proof (induction xs)
  case Nil
  show ?case by (simp add: sort_by_def)
next
  case (Cons a xs)
  then show ?case
    using descending_insert_by [of "sort_by compare_score xs" a] by (simp add: sort_by_def)
qed

lemma filter_equal_insert_by:
  "filter (\<lambda>y. compare_score x y = 0) (insert_by compare_score a ys) =
     (if compare_score x a = 0 then a # filter (\<lambda>y. compare_score x y = 0) ys
      else filter (\<lambda>y. compare_score x y = 0) ys)"
  by (induction ys) (auto simp: compare_score_def)

lemma filter_equal_sort_by:
  "filter (\<lambda>y. compare_score x y = 0) (sort_by compare_score xs) =
     filter (\<lambda>y. compare_score x y = 0) xs"
proof (induction xs)
  case Nil
  show ?case by (simp add: sort_by_def)
next
  case (Cons a xs)
  have "sort_by compare_score (a # xs) = insert_by compare_score a (sort_by compare_score xs)"
    by (simp add: sort_by_def)
  with Cons show ?case by (simp add: filter_equal_insert_by)
qed

lemma sort_by_meets_contract:
  "array_sort_contract compare_score xs (sort_by compare_score xs)"
  by (simp add: array_sort_contract_def mset_sort_by descending_sort_by filter_equal_sort_by
      list_all_iff)

lemma contract_all_equal:
  assumes eq: "list_all (\<lambda>c. score c = k) xs"
    and c: "array_sort_contract compare_score xs ys"
  shows "ys = xs"
proof (cases xs)
  case Nil
  with c show ?thesis by (simp add: array_sort_contract_def)
next
  case (Cons x xs')
  from c have m: "mset ys = mset xs"
    and st: "filter (\<lambda>y. compare_score x y = 0) ys = filter (\<lambda>y. compare_score x y = 0) xs"
    by (simp_all add: array_sort_contract_def Cons)
  from m have "set ys = set xs" by (rule mset_eq_setD)
  with eq have eqy: "list_all (\<lambda>c. score c = k) ys"
    by (simp add: list_all_iff)
  from eq Cons have kx: "score x = k" by simp
  have "filter (\<lambda>y. compare_score x y = 0) xs = xs"
    using eq by (simp add: compare_score_def kx list_all_iff)
  moreover have "filter (\<lambda>y. compare_score x y = 0) ys = ys"
    using eqy by (simp add: compare_score_def kx list_all_iff)
  ultimately show ?thesis using st by simp
qed

text \<open>
  C9. For a fixed chunk sequence and question, the ranking has one possible result. The
  only step of the computation that the code leaves to the runtime is the sort: whatever
  arrays \<open>ys1\<close> and \<open>ys2\<close> two invocations of a sort that honours the standard's contract
  return for the matching chunks, the first three elements of both are the same ordered
  list, and that list is the value of \<open>relevantChunks\<close>.
\<close>

theorem ranking_deterministic:
  assumes "array_sort_contract compare_score (matching_chunks chunks q) ys1"
    and "array_sort_contract compare_score (matching_chunks chunks q) ys2"
  shows "slice 0 3 ys1 = slice 0 3 ys2 \<and> slice 0 3 ys1 = relevantChunks chunks q"
proof -
  from assms have "ys1 = matching_chunks chunks q" "ys2 = matching_chunks chunks q"
    by (simp_all add: contract_all_equal [OF score_matching])
  then show ?thesis by (simp add: relevantChunks_eq slice_def)
qed

theorem ranking_deterministic_witness:
  "array_sort_contract compare_score (matching_chunks policy_chunks ''Knee Surgery'')
     (sort_by compare_score (matching_chunks policy_chunks ''Knee Surgery''))
   \<and> map chunk_index
        (slice 0 3 (sort_by compare_score (matching_chunks policy_chunks ''Knee Surgery''))) =
       [0, 2, 3]
   \<and> slice 0 3 (sort_by compare_score (matching_chunks policy_chunks ''Knee Surgery'')) =
       relevantChunks policy_chunks ''Knee Surgery''"
proof -
  let ?xs = "matching_chunks policy_chunks ''Knee Surgery''"
  have h: "array_sort_contract compare_score ?xs (sort_by compare_score ?xs)"
    by (rule sort_by_meets_contract)
  have v: "map chunk_index (slice 0 3 (sort_by compare_score ?xs)) = [0, 2, 3]"
    by code_simp
  from ranking_deterministic [OF h h] h v show ?thesis by simp
qed

section \<open>Properties of the query interface\<close>

lemma trim_empty_iff: "trim s = [] \<longleftrightarrow> list_all is_white_space s"
proof
  assume "trim s = []"
  then have "\<forall>x \<in> set (dropWhile is_white_space s). is_white_space x"
    by (simp add: trim_def dropWhile_eq_Nil_conv)
  then have "dropWhile is_white_space s = []"
    by (metis hd_dropWhile hd_in_set)
  then show "list_all is_white_space s"
    by (simp add: dropWhile_eq_Nil_conv list_all_iff)
next
  assume "list_all is_white_space s"
  then have d: "dropWhile is_white_space s = []"
    by (simp add: dropWhile_eq_Nil_conv list_all_iff)
  show "trim s = []" unfolding trim_def d by simp
qed

text \<open>
  C10. For every state of the query interface whose question has an empty trim, that is,
  a question that is empty or made of white space only, submitting the form leaves the
  state as it is and issues no call of the analyze operation, and the submit button is
  disabled.
\<close>

theorem blank_question_not_submitted:
  assumes "trim (st_question st) = []"
  shows "handleSubmit invoke docId st = st
    \<and> st_invocations (handleSubmit invoke docId st) = st_invocations st
    \<and> submit_disabled st
    \<and> list_all is_white_space (st_question st)"
  using assms by (simp add: handleSubmit_def submit_disabled_def flip: trim_empty_iff)

lemma nonblank_question_submitted:
  "trim (st_question st) \<noteq> [] \<Longrightarrow>
   st_invocations (handleSubmit invoke docId st) =
     st_invocations st @ [\<lparr>function_name = ''analyze-document'',
        invocation_body = \<lparr>documentId = docId, question = st_question st\<rparr>\<rparr>]"
  by (simp add: handleSubmit_def Let_def split: invoke_reply.splits)

theorem blank_question_not_submitted_witness:
  "trim (st_question blank_form) = []
   \<and> handleSubmit (\<lambda>call. InvokeData JNull) ''doc-1'' blank_form = blank_form
   \<and> st_invocations (handleSubmit (\<lambda>call. InvokeData JNull) ''doc-1'' blank_form) = []
   \<and> submit_disabled blank_form"
proof -
  have h: "trim (st_question blank_form) = []"
    by code_simp
  have i: "st_invocations blank_form = []"
    by (simp add: blank_form_def)
  from blank_question_not_submitted [OF h, of "\<lambda>call. InvokeData JNull" "''doc-1''"] h i
  show ?thesis by simp
qed

section \<open>Properties of the handler\<close>

lemma request_acceptedD:
  assumes "request_accepted e req usr b doc"
  obtains authHeader where "req_authorization req = Some authHeader"
    and "auth_getUser e (replace_first ''Bearer '' [] authHeader) = Some usr"
    and "req_json req = Some b"
    and "select_document e (documentId b) = Some doc"
  using assms by (auto simp: request_accepted_def split: option.splits)

lemma try_block_rejected:
  assumes "request_accepted e req usr b doc"
    and "gateway_fetch e (sent_request doc b) = Rejected m"
  shows "try_block e w req =
    (Some (Inl (FetchError m)),
     \<lparr>queries = queries w,
      gateway_calls = gateway_calls w @ [sent_request doc b],
      console = console w @ [LogAnalyzing (documentId b) (question b)]\<rparr>)"
proof -
  from assms(1) obtain h where "req_authorization req = Some h"
    "auth_getUser e (replace_first ''Bearer '' [] h) = Some usr"
    "req_json req = Some b" "select_document e (documentId b) = Some doc"
    by (rule request_acceptedD)
  with assms(2) show ?thesis
    by (simp add: try_block_def Let_def sent_request_def)
qed

lemma try_block_not_ok:
  assumes "request_accepted e req usr b doc"
    and "gateway_fetch e (sent_request doc b) = Responded r" and "\<not> resp_ok r"
  shows "try_block e w req =
    (Some (Inl (Error ''AI analysis failed'')),
     \<lparr>queries = queries w,
      gateway_calls = gateway_calls w @ [sent_request doc b],
      console = console w @ [LogAnalyzing (documentId b) (question b),
                  LogGatewayError (resp_status r) (resp_text r)]\<rparr>)"
proof -
  from assms(1) obtain h where "req_authorization req = Some h"
    "auth_getUser e (replace_first ''Bearer '' [] h) = Some usr"
    "req_json req = Some b" "select_document e (documentId b) = Some doc"
    by (rule request_acceptedD)
  with assms(2,3) show ?thesis
    by (simp add: try_block_def Let_def sent_request_def)
qed

lemma try_block_pending:
  assumes "request_accepted e req usr b doc"
    and "gateway_fetch e (sent_request doc b) = NeverSettles"
  shows "try_block e w req =
    (None,
     \<lparr>queries = queries w,
      gateway_calls = gateway_calls w @ [sent_request doc b],
      console = console w @ [LogAnalyzing (documentId b) (question b)]\<rparr>)"
proof -
  from assms(1) obtain h where "req_authorization req = Some h"
    "auth_getUser e (replace_first ''Bearer '' [] h) = Some usr"
    "req_json req = Some b" "select_document e (documentId b) = Some doc"
    by (rule request_acceptedD)
  with assms(2) show ?thesis
    by (simp add: try_block_def Let_def sent_request_def)
qed

lemma try_block_content:
  fixes w b doc
  defines "w2 \<equiv> w\<lparr>console := console w @ [LogAnalyzing (documentId b) (question b)],
                     gateway_calls := gateway_calls w @ [sent_request doc b]\<rparr>"
  assumes "request_accepted e req usr b doc"
    and "gateway_fetch e (sent_request doc b) = Responded r" and "resp_ok r"
    and "resp_content r = Inr aiResponse"
  shows "try_block e w req =
    (case store_query e w2 (documentId b) usr (question b)
            (parse_result e aiResponse (relevantChunks (doc_chunks doc) (question b))) of
       Inl raised \<Rightarrow> (Some (Inl raised), w2)
     | Inr (insert_error, w3) \<Rightarrow>
         (Some (Inr (parse_result e aiResponse (relevantChunks (doc_chunks doc) (question b)))),
          w3\<lparr>console := console w3 @ [LogAnalysisComplete]\<rparr>))"
proof -
  from assms(2) obtain h where "req_authorization req = Some h"
    "auth_getUser e (replace_first ''Bearer '' [] h) = Some usr"
    "req_json req = Some b" "select_document e (documentId b) = Some doc"
    by (rule request_acceptedD)
  with assms(3-) show ?thesis
    by (simp add: try_block_def Let_def sent_request_def w2_def split: sum.splits prod.splits)
qed

lemma query_row_of_not_null:
  "result \<noteq> JNull \<Longrightarrow> \<exists>row. query_row_of docId usr q result = Inr row"
  by (cases result) (simp_all add: query_row_of_def)

lemma store_query_not_null:
  "result \<noteq> JNull \<Longrightarrow> \<exists>rep w'. store_query e w docId usr q result = Inr (rep, w')
      \<and> console w' = console w \<and> gateway_calls w' = gateway_calls w"
  using query_row_of_not_null [of result docId usr q]
  by (auto simp: store_query_def split: option.splits)

lemma analyze_result:
  assumes "req_method req \<noteq> ''OPTIONS''"
    and "request_accepted e req usr b doc"
    and "gateway_fetch e (sent_request doc b) = Responded r" and "resp_ok r"
    and "resp_content r = Inr aiResponse"
    and "parse_result e aiResponse (relevantChunks (doc_chunks doc) (question b)) \<noteq> JNull"
  shows "fst (analyze e w req) =
      Some \<lparr>status = 200,
            body = JsonBody
              (parse_result e aiResponse (relevantChunks (doc_chunks doc) (question b)))\<rparr>"
    and "gateway_calls (snd (analyze e w req)) = gateway_calls w @ [sent_request doc b]"
    and "console (snd (analyze e w req)) =
      console w @ [LogAnalyzing (documentId b) (question b), LogAnalysisComplete]"
proof -
  let ?w2 = "w\<lparr>console := console w @ [LogAnalyzing (documentId b) (question b)],
               gateway_calls := gateway_calls w @ [sent_request doc b]\<rparr>"
  let ?res = "parse_result e aiResponse (relevantChunks (doc_chunks doc) (question b))"
  from store_query_not_null [OF assms(6), of e ?w2 "documentId b" usr "question b"]
  obtain rep w' where s: "store_query e ?w2 (documentId b) usr (question b) ?res = Inr (rep, w')"
    and c: "console w' = console ?w2" and g: "gateway_calls w' = gateway_calls ?w2"
    by blast
  have t: "try_block e w req =
      (Some (Inr ?res), w'\<lparr>console := console w' @ [LogAnalysisComplete]\<rparr>)"
    by (simp add: try_block_content [OF assms(2-5)] s)
  show "fst (analyze e w req) = Some \<lparr>status = 200, body = JsonBody ?res\<rparr>"
    using assms(1) by (simp add: analyze_def t)
  show "gateway_calls (snd (analyze e w req)) = gateway_calls w @ [sent_request doc b]"
    using assms(1) by (simp add: analyze_def t g)
  show "console (snd (analyze e w req)) =
      console w @ [LogAnalyzing (documentId b) (question b), LogAnalysisComplete]"
    using assms(1) by (simp add: analyze_def t c)
qed

lemma try_block_gateway_failed:
  assumes "\<forall>sent. gateway_failed (gateway_fetch e sent)"
  shows "\<exists>raised w'. try_block e w req = (Some (Inl raised), w') \<and> queries w' = queries w"
proof -
  have f: "\<And>sent r. gateway_fetch e sent = Responded r \<Longrightarrow> \<not> resp_ok r"
    using assms by (metis gateway_failed.simps(2))
  have g: "\<And>sent. gateway_fetch e sent = NeverSettles \<Longrightarrow> False"
    using assms by (metis gateway_failed.simps(3))
  show ?thesis
    by (auto simp: try_block_def Let_def dest: f g split: option.splits fetch_outcome.splits)
qed

text \<open>
  C3, as amended. Whenever the reasoning capability is unreachable, so that \<open>fetch\<close>
  rejects, or returns a non-success status, a request other than the preflight is
  answered with status 500 and the error, which is the rejection of \<open>fetch\<close> or, for a
  non-success status, the error "AI analysis failed"; the request to the gateway was
  made, and no row is added to the table \<open>queries\<close>. No timeout is set on the request:
  when the gateway never answers, the handler gives no response, neither an error nor a
  result, and no row is added either.
\<close>

theorem gateway_failure_fails_analysis:
  assumes "req_method req \<noteq> ''OPTIONS''"
  shows "((\<forall>sent. gateway_failed (gateway_fetch e sent)) \<longrightarrow>
            (\<exists>raised. fst (analyze e w req) = Some \<lparr>status = 500, body = ErrorBody raised\<rparr>)
            \<and> queries (snd (analyze e w req)) = queries w)
    \<and> (request_accepted e req usr b doc \<and> gateway_fetch e (sent_request doc b) = Rejected m \<longrightarrow>
            fst (analyze e w req) = Some \<lparr>status = 500, body = ErrorBody (FetchError m)\<rparr>
            \<and> gateway_calls (snd (analyze e w req)) = gateway_calls w @ [sent_request doc b]
            \<and> queries (snd (analyze e w req)) = queries w)
    \<and> (request_accepted e req usr b doc \<and> gateway_fetch e (sent_request doc b) = Responded r
          \<and> \<not> resp_ok r \<longrightarrow>
            fst (analyze e w req) =
              Some \<lparr>status = 500, body = ErrorBody (Error ''AI analysis failed'')\<rparr>
            \<and> gateway_calls (snd (analyze e w req)) = gateway_calls w @ [sent_request doc b]
            \<and> queries (snd (analyze e w req)) = queries w)
    \<and> (request_accepted e req usr b doc \<and> gateway_fetch e (sent_request doc b) = NeverSettles \<longrightarrow>
            fst (analyze e w req) = None
            \<and> gateway_calls (snd (analyze e w req)) = gateway_calls w @ [sent_request doc b]
            \<and> queries (snd (analyze e w req)) = queries w)"
proof -
  have a: "(\<exists>raised. fst (analyze e w req) = Some \<lparr>status = 500, body = ErrorBody raised\<rparr>)
            \<and> queries (snd (analyze e w req)) = queries w"
    if f: "\<forall>sent. gateway_failed (gateway_fetch e sent)"
  proof -
    from try_block_gateway_failed [OF f, of w req]
    obtain raised w' where t: "try_block e w req = (Some (Inl raised), w')"
      and q: "queries w' = queries w"
      by blast
    with assms show ?thesis by (simp add: analyze_def)
  qed
  have b: "fst (analyze e w req) = Some \<lparr>status = 500, body = ErrorBody (FetchError m)\<rparr>
            \<and> gateway_calls (snd (analyze e w req)) = gateway_calls w @ [sent_request doc b]
            \<and> queries (snd (analyze e w req)) = queries w"
    if "request_accepted e req usr b doc" "gateway_fetch e (sent_request doc b) = Rejected m"
    using assms by (simp add: analyze_def try_block_rejected [OF that])
  have c: "fst (analyze e w req) =
              Some \<lparr>status = 500, body = ErrorBody (Error ''AI analysis failed'')\<rparr>
            \<and> gateway_calls (snd (analyze e w req)) = gateway_calls w @ [sent_request doc b]
            \<and> queries (snd (analyze e w req)) = queries w"
    if "request_accepted e req usr b doc" "gateway_fetch e (sent_request doc b) = Responded r"
      "\<not> resp_ok r"
    using assms by (simp add: analyze_def try_block_not_ok [OF that])
  have d: "fst (analyze e w req) = None
            \<and> gateway_calls (snd (analyze e w req)) = gateway_calls w @ [sent_request doc b]
            \<and> queries (snd (analyze e w req)) = queries w"
    if "request_accepted e req usr b doc" "gateway_fetch e (sent_request doc b) = NeverSettles"
    using assms by (simp add: analyze_def try_block_pending [OF that])
  from a b c d show ?thesis by blast
qed

theorem gateway_failure_fails_analysis_witness:
  "req_method (sample_request ''Knee Surgery'') \<noteq> ''OPTIONS''
   \<and> (\<forall>sent. gateway_failed (gateway_fetch gateway_down sent))
   \<and> request_accepted gateway_down (sample_request ''Knee Surgery'') \<lparr>user_id = ''user-1''\<rparr>
        \<lparr>documentId = ''doc-1'', question = ''Knee Surgery''\<rparr>
        \<lparr>doc_id = ''doc-1'', doc_chunks = policy_chunks\<rparr>
   \<and> fst (analyze gateway_down empty_world (sample_request ''Knee Surgery'')) =
       Some \<lparr>status = 500, body = ErrorBody (Error ''AI analysis failed'')\<rparr>
   \<and> queries (snd (analyze gateway_down empty_world (sample_request ''Knee Surgery''))) = []"
proof -
  let ?b = "\<lparr>documentId = ''doc-1'', question = ''Knee Surgery''\<rparr>"
  let ?doc = "\<lparr>doc_id = ''doc-1'', doc_chunks = policy_chunks\<rparr>"
  let ?r = "\<lparr>resp_ok = False, resp_status = 503, resp_text = ''Service Unavailable'',
             resp_content = Inl SyntaxError\<rparr>"
  have h1: "req_method (sample_request ''Knee Surgery'') \<noteq> ''OPTIONS''"
    by (simp add: sample_request_def)
  have h2: "\<forall>sent. gateway_failed (gateway_fetch gateway_down sent)"
    by (simp add: gateway_down_def)
  have h3: "request_accepted gateway_down (sample_request ''Knee Surgery'')
      \<lparr>user_id = ''user-1''\<rparr> ?b ?doc"
    by (simp add: request_accepted_def gateway_down_def sample_env_def sample_request_def)
  have h4: "gateway_fetch gateway_down (sent_request ?doc ?b) = Responded ?r"
    by (simp add: gateway_down_def)
  have h5: "\<not> resp_ok ?r"
    by simp
  have q: "queries empty_world = []"
    by (simp add: empty_world_def)
  from gateway_failure_fails_analysis
    [OF h1, where e = gateway_down and w = empty_world and usr = "\<lparr>user_id = ''user-1''\<rparr>"
       and b = ?b and doc = ?doc and r = ?r]
    h1 h2 h3 h4 h5 q
  show ?thesis by simp
qed

text \<open>
  C3 as stated fails for the timeout. With a gateway that never answers, the request is
  sent and the handler waits without end: it gives no response, so the operation does
  not fail with an error.
\<close>

theorem silent_gateway_never_fails:
  "fst (analyze gateway_silent empty_world (sample_request ''Knee Surgery'')) = None
   \<and> gateway_fetch gateway_silent
        (sent_request \<lparr>doc_id = ''doc-1'', doc_chunks = policy_chunks\<rparr>
           \<lparr>documentId = ''doc-1'', question = ''Knee Surgery''\<rparr>) = NeverSettles
   \<and> length (gateway_calls
        (snd (analyze gateway_silent empty_world (sample_request ''Knee Surgery'')))) = 1
   \<and> queries (snd (analyze gateway_silent empty_world (sample_request ''Knee Surgery''))) = []"
proof -
  have a: "fst (analyze gateway_silent empty_world (sample_request ''Knee Surgery'')) = None"
    by code_simp
  have b: "gateway_fetch gateway_silent
        (sent_request \<lparr>doc_id = ''doc-1'', doc_chunks = policy_chunks\<rparr>
           \<lparr>documentId = ''doc-1'', question = ''Knee Surgery''\<rparr>) = NeverSettles"
    by (simp add: gateway_silent_def)
  have c: "length (gateway_calls
        (snd (analyze gateway_silent empty_world (sample_request ''Knee Surgery'')))) = 1"
    by code_simp
  have d: "queries (snd (analyze gateway_silent empty_world (sample_request ''Knee Surgery''))) = []"
    by code_simp
  from a b c d show ?thesis by simp
qed

text \<open>
  C2, as amended. For every content of the reasoning service's response that fails to
  parse as JSON, the result returned with status 200 has \<open>answer\<close> equal to the raw content,
  \<open>evidence\<close> equal to the texts of the ranked chunks (three at most), each cut to its first
  200 characters and followed by the marker \<open>...\<close> (203 characters at most),
  \<open>confidence_score\<close> equal to 75 and \<open>reasoning\<close> equal to the note
  "Analysis based on document context".
\<close>

theorem fallback_on_unparseable_response:
  assumes "req_method req \<noteq> ''OPTIONS''"
    and "request_accepted e req usr b doc"
    and "gateway_fetch e (sent_request doc b) = Responded r" and "resp_ok r"
    and "resp_content r = Inr aiResponse"
    and "JSON_parse e aiResponse = None"
  shows "fst (analyze e w req) =
      Some \<lparr>status = 200,
       body = JsonBody (JObject
         [(''answer'', JString aiResponse),
          (''evidence'',
             JArray (map (\<lambda>c. JString (take 200 (chunk_text c) @ ''...''))
                       (relevantChunks (doc_chunks doc) (question b)))),
          (''confidence_score'', JNumber 75),
          (''reasoning'', JString ''Analysis based on document context'')])\<rparr>
    \<and> length (relevantChunks (doc_chunks doc) (question b)) \<le> 3
    \<and> list_all (\<lambda>c. length (take 200 (chunk_text c) @ ''...'') \<le> 203)
         (relevantChunks (doc_chunks doc) (question b))"
proof -
  let ?rel = "relevantChunks (doc_chunks doc) (question b)"
  have p: "parse_result e aiResponse ?rel = fallback_result aiResponse ?rel"
    by (simp add: parse_result_def assms(6))
  then have "parse_result e aiResponse ?rel \<noteq> JNull"
    by (simp add: fallback_result_def)
  from analyze_result(1) [OF assms(1-5) this]
  have "fst (analyze e w req) =
      Some \<lparr>status = 200, body = JsonBody (fallback_result aiResponse ?rel)\<rparr>"
    by (simp add: p)
  then show ?thesis
    by (simp add: fallback_result_def substring_def length_relevantChunks list_all_iff)
qed

theorem fallback_on_unparseable_response_witness:
  "req_method (sample_request ''Dental'') \<noteq> ''OPTIONS''
   \<and> request_accepted sample_env (sample_request ''Dental'') \<lparr>user_id = ''user-1''\<rparr>
        \<lparr>documentId = ''doc-1'', question = ''Dental''\<rparr>
        \<lparr>doc_id = ''doc-1'', doc_chunks = policy_chunks\<rparr>
   \<and> JSON_parse sample_env ''Yes, under plan B.'' = None
   \<and> fst (analyze sample_env empty_world (sample_request ''Dental'')) =
      Some \<lparr>status = 200,
       body = JsonBody (JObject
         [(''answer'', JString ''Yes, under plan B.''),
          (''evidence'', JArray [JString ''Dental work is excluded....'']),
          (''confidence_score'', JNumber 75),
          (''reasoning'', JString ''Analysis based on document context'')])\<rparr>"
proof -
  let ?b = "\<lparr>documentId = ''doc-1'', question = ''Dental''\<rparr>"
  let ?doc = "\<lparr>doc_id = ''doc-1'', doc_chunks = policy_chunks\<rparr>"
  let ?r = "\<lparr>resp_ok = True, resp_status = 200, resp_text = [],
             resp_content = Inr ''Yes, under plan B.''\<rparr>"
  have h1: "req_method (sample_request ''Dental'') \<noteq> ''OPTIONS''"
    by (simp add: sample_request_def)
  have h2: "request_accepted sample_env (sample_request ''Dental'') \<lparr>user_id = ''user-1''\<rparr> ?b ?doc"
    by (simp add: request_accepted_def sample_env_def sample_request_def)
  have h3: "gateway_fetch sample_env (sent_request ?doc ?b) = Responded ?r"
    by (simp add: sample_env_def reply_with_def)
  have h4: "resp_ok ?r" and h5: "resp_content ?r = Inr ''Yes, under plan B.''"
    by simp_all
  have h6: "JSON_parse sample_env ''Yes, under plan B.'' = None"
    by (simp add: sample_env_def sample_parse_def)
  have v: "map (\<lambda>c. JString (take 200 (chunk_text c) @ ''...''))
             (relevantChunks (doc_chunks ?doc) (question ?b)) =
           [JString ''Dental work is excluded....'']"
    by code_simp
  from fallback_on_unparseable_response [OF h1 h2 h3 h4 h5 h6, of empty_world] h1 h2 h6
  show ?thesis by (simp only: v) simp
qed

text \<open>
  C2 as stated fails: an evidence entry is not a truncation of the chunk text. For the
  chunk "Dental work is excluded." the entry is "Dental work is excluded....", which is
  longer than the text and no initial part of it.
\<close>

theorem evidence_not_a_truncation:
  "fst (analyze sample_env empty_world (sample_request ''Dental'')) =
     Some \<lparr>status = 200, body = JsonBody (JObject
       [(''answer'', JString ''Yes, under plan B.''),
        (''evidence'', JArray [JString ''Dental work is excluded....'']),
        (''confidence_score'', JNumber 75),
        (''reasoning'', JString ''Analysis based on document context'')])\<rparr>
   \<and> JSON_parse sample_env ''Yes, under plan B.'' = None
   \<and> map chunk_text (relevantChunks policy_chunks ''Dental'') = [''Dental work is excluded.'']
   \<and> \<not> prefix ''Dental work is excluded....'' ''Dental work is excluded.''
   \<and> length ''Dental work is excluded.'' < length ''Dental work is excluded....''"
proof -
  have a: "fst (analyze sample_env empty_world (sample_request ''Dental'')) =
     Some \<lparr>status = 200, body = JsonBody (JObject
       [(''answer'', JString ''Yes, under plan B.''),
        (''evidence'', JArray [JString ''Dental work is excluded....'']),
        (''confidence_score'', JNumber 75),
        (''reasoning'', JString ''Analysis based on document context'')])\<rparr>"
    by code_simp
  have b: "JSON_parse sample_env ''Yes, under plan B.'' = None"
    by (simp add: sample_env_def sample_parse_def)
  have c: "map chunk_text (relevantChunks policy_chunks ''Dental'') = [''Dental work is excluded.'']"
    by code_simp
  have d: "\<not> prefix ''Dental work is excluded....'' ''Dental work is excluded.''"
    by simp
  from a b c d show ?thesis by simp
qed

text \<open>
  C4, as amended. A content of the reasoning service's response that parses as JSON to a
  value other than \<open>null\<close> is accepted as it is, whatever its shape: it is returned with
  status 200, and no check of the fields \<open>answer\<close>, \<open>evidence\<close>, \<open>confidence_score\<close> and
  \<open>reasoning\<close> is made. A content that fails to parse as JSON goes to the fallback path.
\<close>

theorem parsed_response_accepted_unchecked:
  assumes "req_method req \<noteq> ''OPTIONS''"
    and "request_accepted e req usr b doc"
    and "gateway_fetch e (sent_request doc b) = Responded r" and "resp_ok r"
    and "resp_content r = Inr aiResponse"
  shows "(JSON_parse e aiResponse = Some parsed \<and> parsed \<noteq> JNull \<longrightarrow>
            fst (analyze e w req) = Some \<lparr>status = 200, body = JsonBody parsed\<rparr>)
    \<and> (JSON_parse e aiResponse = None \<longrightarrow>
            fst (analyze e w req) =
              Some \<lparr>status = 200,
                    body = JsonBody (fallback_result aiResponse
                             (relevantChunks (doc_chunks doc) (question b)))\<rparr>)"
proof -
  let ?rel = "relevantChunks (doc_chunks doc) (question b)"
  have a: "fst (analyze e w req) = Some \<lparr>status = 200, body = JsonBody parsed\<rparr>"
    if "JSON_parse e aiResponse = Some parsed" "parsed \<noteq> JNull"
  proof -
    from that have "parse_result e aiResponse ?rel = parsed"
      by (simp add: parse_result_def)
    with that(2) analyze_result(1) [OF assms, of w] show ?thesis by simp
  qed
  have b: "fst (analyze e w req) =
      Some \<lparr>status = 200, body = JsonBody (fallback_result aiResponse ?rel)\<rparr>"
    if "JSON_parse e aiResponse = None"
  proof -
    from that have p: "parse_result e aiResponse ?rel = fallback_result aiResponse ?rel"
      by (simp add: parse_result_def)
    then have "parse_result e aiResponse ?rel \<noteq> JNull"
      by (simp add: fallback_result_def)
    from analyze_result(1) [OF assms this, of w] p show ?thesis by simp
  qed
  from a b show ?thesis by blast
qed

theorem parsed_response_accepted_unchecked_witness:
  "req_method (sample_request ''Dental'') \<noteq> ''OPTIONS''
   \<and> request_accepted gateway_empty_object (sample_request ''Dental'') \<lparr>user_id = ''user-1''\<rparr>
        \<lparr>documentId = ''doc-1'', question = ''Dental''\<rparr>
        \<lparr>doc_id = ''doc-1'', doc_chunks = policy_chunks\<rparr>
   \<and> JSON_parse gateway_empty_object ''{}'' = Some (JObject [])
   \<and> fst (analyze gateway_empty_object empty_world (sample_request ''Dental'')) =
       Some \<lparr>status = 200, body = JsonBody (JObject [])\<rparr>"
proof -
  let ?b = "\<lparr>documentId = ''doc-1'', question = ''Dental''\<rparr>"
  let ?doc = "\<lparr>doc_id = ''doc-1'', doc_chunks = policy_chunks\<rparr>"
  let ?r = "\<lparr>resp_ok = True, resp_status = 200, resp_text = [], resp_content = Inr ''{}''\<rparr>"
  have h1: "req_method (sample_request ''Dental'') \<noteq> ''OPTIONS''"
    by (simp add: sample_request_def)
  have h2: "request_accepted gateway_empty_object (sample_request ''Dental'')
      \<lparr>user_id = ''user-1''\<rparr> ?b ?doc"
    by (simp add: request_accepted_def gateway_empty_object_def sample_env_def sample_request_def)
  have h3: "gateway_fetch gateway_empty_object (sent_request ?doc ?b) = Responded ?r"
    by (simp add: gateway_empty_object_def sample_env_def reply_with_def)
  have h4: "resp_ok ?r" and h5: "resp_content ?r = Inr ''{}''"
    by simp_all
  have h6: "JSON_parse gateway_empty_object ''{}'' = Some (JObject [])"
    by (simp add: gateway_empty_object_def sample_env_def sample_parse_def)
  from parsed_response_accepted_unchecked [OF h1 h2 h3 h4 h5, of "JObject []" empty_world] h1 h2 h6
  show ?thesis by simp
qed

text \<open>
  C4 as stated fails: the content \<open>{}\<close> parses to the empty object, which has none of the
  four fields, and it is returned as it is, not replaced by the fallback record.
\<close>

theorem unshaped_response_accepted:
  "fst (analyze gateway_empty_object empty_world (sample_request ''Dental'')) =
     Some \<lparr>status = 200, body = JsonBody (JObject [])\<rparr>
   \<and> JSON_parse gateway_empty_object ''{}'' = Some (JObject [])
   \<and> \<not> structured_shape (JObject [])
   \<and> JObject [] \<noteq> fallback_result ''{}'' (relevantChunks policy_chunks ''Dental'')"
proof -
  have a: "fst (analyze gateway_empty_object empty_world (sample_request ''Dental'')) =
     Some \<lparr>status = 200, body = JsonBody (JObject [])\<rparr>"
    by code_simp
  have b: "JSON_parse gateway_empty_object ''{}'' = Some (JObject [])"
    by (simp add: gateway_empty_object_def sample_env_def sample_parse_def)
  have c: "\<not> structured_shape (JObject [])"
    by simp
  have d: "JObject [] \<noteq> fallback_result ''{}'' (relevantChunks policy_chunks ''Dental'')"
    by (simp add: fallback_result_def)
  from a b c d show ?thesis by simp
qed

lemma no_match_no_chunks:
  assumes "list_all (\<lambda>c. \<not> sublist (toLowerCase q) (toLowerCase (chunk_text c))) chunks"
  shows "relevantChunks chunks q = []"
proof -
  from assms have "filter (\<lambda>c. sublist (toLowerCase q) (toLowerCase (chunk_text c))) chunks = []"
    by (simp add: list_all_iff filter_empty_conv)
  then show ?thesis by (simp add: relevantChunks_eq matching_chunks_eq)
qed

text \<open>
  C6, as amended. For every document and question where no chunk contains the lowercased
  question, the context is the empty string and the synthesis proceeds: the request to
  the gateway is made, with the empty context, and when the gateway answers with a
  content the handler returns status 200 with the value that the content parses to,
  whatever the shape of that value, or, for a content that is not JSON, with the
  fallback record, whose evidence list is empty. The empty context raises no error.
  (A content that parses to \<open>null\<close> is left out.)
\<close>

theorem empty_context_still_synthesizes:
  assumes "req_method req \<noteq> ''OPTIONS''"
    and "request_accepted e req usr b doc"
    and "list_all (\<lambda>c. \<not> sublist (toLowerCase (question b)) (toLowerCase (chunk_text c)))
           (doc_chunks doc)"
    and "gateway_fetch e (gateway_request_of [] (question b)) = Responded r" and "resp_ok r"
    and "resp_content r = Inr aiResponse"
    and "JSON_parse e aiResponse \<noteq> Some JNull"
  shows "context_of (relevantChunks (doc_chunks doc) (question b)) = []
    \<and> gateway_calls (snd (analyze e w req)) =
        gateway_calls w @ [gateway_request_of [] (question b)]
    \<and> fst (analyze e w req) =
        Some \<lparr>status = 200,
         body = JsonBody (case JSON_parse e aiResponse of
                   Some parsed \<Rightarrow> parsed
                 | None \<Rightarrow>
                     JObject [(''answer'', JString aiResponse), (''evidence'', JArray []),
                              (''confidence_score'', JNumber 75),
                              (''reasoning'', JString ''Analysis based on document context'')])\<rparr>"
proof -
  have rel: "relevantChunks (doc_chunks doc) (question b) = []"
    using assms(3) by (rule no_match_no_chunks)
  then have ctx: "context_of (relevantChunks (doc_chunks doc) (question b)) = []"
    by (simp add: context_of_Nil)
  then have sent: "sent_request doc b = gateway_request_of [] (question b)"
    by (simp add: sent_request_def)
  have res: "parse_result e aiResponse [] =
      (case JSON_parse e aiResponse of
         Some parsed \<Rightarrow> parsed
       | None \<Rightarrow>
           JObject [(''answer'', JString aiResponse), (''evidence'', JArray []),
                    (''confidence_score'', JNumber 75),
                    (''reasoning'', JString ''Analysis based on document context'')])"
    by (simp add: parse_result_def fallback_result_def split: option.splits)
  have nn: "parse_result e aiResponse (relevantChunks (doc_chunks doc) (question b)) \<noteq> JNull"
    using assms(7) by (auto simp: rel parse_result_def fallback_result_def split: option.splits)
  have f: "gateway_fetch e (sent_request doc b) = Responded r"
    using assms(4) by (simp add: sent)
  from analyze_result(1,2) [OF assms(1,2) f assms(5,6) nn, of w] ctx
  show ?thesis by (simp add: rel sent res)
qed

theorem empty_context_still_synthesizes_witness:
  "req_method (sample_request ''helicopter'') \<noteq> ''OPTIONS''
   \<and> request_accepted sample_env (sample_request ''helicopter'') \<lparr>user_id = ''user-1''\<rparr>
        \<lparr>documentId = ''doc-1'', question = ''helicopter''\<rparr>
        \<lparr>doc_id = ''doc-1'', doc_chunks = policy_chunks\<rparr>
   \<and> list_all (\<lambda>c. \<not> sublist (toLowerCase ''helicopter'') (toLowerCase (chunk_text c)))
        policy_chunks
   \<and> JSON_parse sample_env ''Yes, under plan B.'' \<noteq> Some JNull
   \<and> context_of (relevantChunks policy_chunks ''helicopter'') = []
   \<and> gateway_calls (snd (analyze sample_env empty_world (sample_request ''helicopter''))) =
       [gateway_request_of [] ''helicopter'']
   \<and> fst (analyze sample_env empty_world (sample_request ''helicopter'')) =
       Some \<lparr>status = 200,
        body = JsonBody (JObject
          [(''answer'', JString ''Yes, under plan B.''), (''evidence'', JArray []),
           (''confidence_score'', JNumber 75),
           (''reasoning'', JString ''Analysis based on document context'')])\<rparr>"
proof -
  let ?b = "\<lparr>documentId = ''doc-1'', question = ''helicopter''\<rparr>"
  let ?doc = "\<lparr>doc_id = ''doc-1'', doc_chunks = policy_chunks\<rparr>"
  let ?r = "\<lparr>resp_ok = True, resp_status = 200, resp_text = [],
             resp_content = Inr ''Yes, under plan B.''\<rparr>"
  have h1: "req_method (sample_request ''helicopter'') \<noteq> ''OPTIONS''"
    by (simp add: sample_request_def)
  have h2: "request_accepted sample_env (sample_request ''helicopter'')
      \<lparr>user_id = ''user-1''\<rparr> ?b ?doc"
    by (simp add: request_accepted_def sample_env_def sample_request_def)
  have m: "list_all (\<lambda>c. \<not> str_includes (toLowerCase (chunk_text c)) (toLowerCase ''helicopter''))
        policy_chunks"
    by code_simp
  have h3: "list_all (\<lambda>c. \<not> sublist (toLowerCase (question ?b)) (toLowerCase (chunk_text c)))
        (doc_chunks ?doc)"
    using m by (simp add: str_includes_sublist)
  have h4: "gateway_fetch sample_env (gateway_request_of [] (question ?b)) = Responded ?r"
    by (simp add: sample_env_def reply_with_def)
  have h5: "resp_ok ?r" and h6: "resp_content ?r = Inr ''Yes, under plan B.''"
    by simp_all
  have h7: "JSON_parse sample_env ''Yes, under plan B.'' \<noteq> Some JNull"
    and p: "JSON_parse sample_env ''Yes, under plan B.'' = None"
    by (simp_all add: sample_env_def sample_parse_def)
  have g: "gateway_calls empty_world = []"
    by (simp add: empty_world_def)
  from empty_context_still_synthesizes [OF h1 h2 h3 h4 h5 h6 h7, of empty_world] h1 h2 h3 h7 g p
  show ?thesis by simp
qed

text \<open>
  C6 as stated fails: with no matching chunk and the content \<open>42\<close>, the result returned is
  the number 42, which has neither the Structured shape nor the shape of the fallback
  record.
\<close>

theorem empty_context_unshaped_result:
  "relevantChunks policy_chunks ''helicopter'' = []
   \<and> context_of (relevantChunks policy_chunks ''helicopter'') = []
   \<and> fst (analyze gateway_number empty_world (sample_request ''helicopter'')) =
       Some \<lparr>status = 200, body = JsonBody (JNumber 42)\<rparr>
   \<and> \<not> structured_shape (JNumber 42)
   \<and> JNumber 42 \<noteq> fallback_result ''42'' []"
proof -
  have a: "relevantChunks policy_chunks ''helicopter'' = []"
    by code_simp
  have b: "fst (analyze gateway_number empty_world (sample_request ''helicopter'')) =
       Some \<lparr>status = 200, body = JsonBody (JNumber 42)\<rparr>"
    by code_simp
  have c: "\<not> structured_shape (JNumber 42)"
    by simp
  have d: "JNumber 42 \<noteq> fallback_result ''42'' []"
    by (simp add: fallback_result_def)
  from a b c d show ?thesis by (simp add: context_of_Nil)
qed

lemma try_block_storage_independent:
  "fst (try_block (e\<lparr>insert_query := ins\<rparr>) w req) = fst (try_block e w req)
   \<and> console (snd (try_block (e\<lparr>insert_query := ins\<rparr>) w req)) = console (snd (try_block e w req))
   \<and> gateway_calls (snd (try_block (e\<lparr>insert_query := ins\<rparr>) w req)) =
       gateway_calls (snd (try_block e w req))"
  by (auto simp: try_block_def Let_def parse_result_def store_query_def
      split: option.splits fetch_outcome.splits sum.splits prod.splits)

lemma try_block_failing_storage:
  "queries (snd (try_block (e\<lparr>insert_query := (\<lambda>row. Some insert_error)\<rparr>) w req)) = queries w"
  by (auto simp: try_block_def Let_def parse_result_def store_query_def
      split: option.splits fetch_outcome.splits sum.splits prod.splits)

lemma analyze_of_try_block:
  "req_method req \<noteq> ''OPTIONS'' \<Longrightarrow>
   fst (analyze e w req) =
     (case fst (try_block e w req) of
        None \<Rightarrow> None
      | Some (Inl raised) \<Rightarrow> Some \<lparr>status = 500, body = ErrorBody raised\<rparr>
      | Some (Inr result) \<Rightarrow> Some \<lparr>status = 200, body = JsonBody result\<rparr>)
   \<and> console (snd (analyze e w req)) =
     (case fst (try_block e w req) of
        Some (Inl raised) \<Rightarrow> console (snd (try_block e w req)) @ [LogError raised]
      | _ \<Rightarrow> console (snd (try_block e w req)))
   \<and> queries (snd (analyze e w req)) = queries (snd (try_block e w req))"
  by (cases "try_block e w req")
     (auto simp: analyze_def split: option.splits sum.splits)

text \<open>
  C8, as amended. If persisting the Exchange record fails, the failure is not reported:
  the handler does not read what the insertion returns, so its response and what it
  writes to the console are the same whatever the storage does with the row, and a
  storage that fails leaves the table as it was. The answer already computed is still
  returned: a failing storage gives the response that a working one gives, and never
  turns a successful analysis into an error.
\<close>

theorem persistence_failure_unreported:
  "fst (analyze (e\<lparr>insert_query := ins\<rparr>) w req) = fst (analyze e w req)
   \<and> console (snd (analyze (e\<lparr>insert_query := ins\<rparr>) w req)) = console (snd (analyze e w req))
   \<and> queries (snd (analyze (e\<lparr>insert_query := (\<lambda>row. Some insert_error)\<rparr>) w req)) = queries w"
proof (cases "req_method req = ''OPTIONS''")
  case True
  then show ?thesis by (simp add: analyze_def)
next
  case False
  note ind = try_block_storage_independent [where e = e and ins = ins and w = w and req = req]
  from ind have a: "fst (analyze (e\<lparr>insert_query := ins\<rparr>) w req) = fst (analyze e w req)"
    by (simp add: analyze_of_try_block [OF False])
  from ind
  have b: "console (snd (analyze (e\<lparr>insert_query := ins\<rparr>) w req)) = console (snd (analyze e w req))"
    by (auto simp: analyze_of_try_block [OF False] split: option.splits sum.splits)
  have c: "queries (snd (analyze (e\<lparr>insert_query := (\<lambda>row. Some insert_error)\<rparr>) w req)) =
      queries w"
    by (simp add: analyze_of_try_block [OF False] try_block_failing_storage)
  from a b c show ?thesis by blast
qed

text \<open>
  C8 as stated fails in its first part. With a storage that refuses every row, the
  response and the console are those of the run in which the row is stored: the answer
  is returned with status 200, the console ends with the line of a completed analysis,
  and nothing tells the caller, or anyone, that the row is missing from the table.
\<close>

theorem storage_failure_not_reported:
  "(\<forall>row. insert_query storage_down row = Some ''storage unavailable'')
   \<and> fst (analyze storage_down empty_world (sample_request ''Dental'')) =
       fst (analyze sample_env empty_world (sample_request ''Dental''))
   \<and> map_option status (fst (analyze storage_down empty_world (sample_request ''Dental''))) =
       Some 200
   \<and> console (snd (analyze storage_down empty_world (sample_request ''Dental''))) =
       [LogAnalyzing ''doc-1'' ''Dental'', LogAnalysisComplete]
   \<and> console (snd (analyze sample_env empty_world (sample_request ''Dental''))) =
       [LogAnalyzing ''doc-1'' ''Dental'', LogAnalysisComplete]
   \<and> queries (snd (analyze storage_down empty_world (sample_request ''Dental''))) = []
   \<and> length (queries (snd (analyze sample_env empty_world (sample_request ''Dental'')))) = 1"
proof -
  have a: "\<forall>row. insert_query storage_down row = Some ''storage unavailable''"
    by (simp add: storage_down_def)
  have b: "fst (analyze storage_down empty_world (sample_request ''Dental'')) =
       fst (analyze sample_env empty_world (sample_request ''Dental''))"
    by code_simp
  have c: "map_option status (fst (analyze storage_down empty_world (sample_request ''Dental''))) =
       Some 200"
    by code_simp
  have d: "console (snd (analyze storage_down empty_world (sample_request ''Dental''))) =
       [LogAnalyzing ''doc-1'' ''Dental'', LogAnalysisComplete]"
    by code_simp
  have e: "console (snd (analyze sample_env empty_world (sample_request ''Dental''))) =
       [LogAnalyzing ''doc-1'' ''Dental'', LogAnalysisComplete]"
    by code_simp
  have f: "queries (snd (analyze storage_down empty_world (sample_request ''Dental''))) = []"
    by code_simp
  have g: "length (queries (snd (analyze sample_env empty_world (sample_request ''Dental'')))) = 1"
    by code_simp
  from a b c d e f g show ?thesis by simp
qed

end
